theory Spec2Isabelle
  imports Main "HOL-Library.Word"
begin

section \<open>Data model of the agent (src/src/Agent.cpp)\<close>

text \<open>
  Byte strings. \<open>std::string\<close>, \<open>Data\<close> and the frames of a message are all sequences
  of bytes; a \<open>char\<close> is one byte. \<open>x.empty()\<close> is \<open>x = []\<close>, \<open>x.size()\<close> is
  \<open>length x\<close>.
\<close>

type_synonym frame = string
type_synonym data = string

text \<open>
  What stops a handler: a failed \<open>OT_ASSERT\<close> (the process aborts), the
  \<open>std::out_of_range\<close> of \<open>at\<close>, the exceptions of the property tree
  (\<open>ptree_bad_path\<close>, \<open>ptree_bad_data\<close>), the \<open>ini_parser_error\<close> of \<open>write_ini\<close>,
  and an unchecked read of a repeated protobuf field beyond its size.
\<close>

datatype error =
    AssertFailure
  | OutOfRange
  | BadPath
  | BadData
  | IniWriteError
  | RepeatedFieldIndex

subsection \<open>Messages\<close>

text \<open>
  A \<open>zmq::Message\<close> as the handlers read it: the frames of \<open>Header()\<close> and the frames
  of \<open>Body()\<close>. \<open>AddFrame\<close> on a message that has its header appends to the body.
\<close>

record Message =
  Header :: "frame list"
  Body :: "frame list"

definition AddFrame :: "frame \<Rightarrow> Message \<Rightarrow> Message" where
  "AddFrame f m = m\<lparr>Body := Body m @ [f]\<rparr>"

text \<open>\<open>zmq::Message::ReplyFactory\<close>: the reply keeps the request's header and starts
  with no body frame.\<close>

definition ReplyFactory :: "Message \<Rightarrow> Message" where
  "ReplyFactory request = \<lparr>Header = Header request, Body = []\<rparr>"

subsection \<open>RPC payloads\<close>

text \<open>The command kinds \<open>backend_handler\<close> names in its switch.\<close>

datatype RPCCommandType =
    RPCCOMMAND_ADDCLIENTSESSION
  | RPCCOMMAND_ADDSERVERSESSION
  | RPCCOMMAND_LISTCLIENTSESSIONS
  | RPCCOMMAND_LISTSERVERSESSIONS
  | RPCCOMMAND_IMPORTHDSEED
  | RPCCOMMAND_LISTHDSEEDS
  | RPCCOMMAND_GETHDSEED
  | RPCCOMMAND_CREATENYM
  | RPCCOMMAND_LISTNYMS
  | RPCCOMMAND_GETNYM
  | RPCCOMMAND_ADDCLAIM
  | RPCCOMMAND_DELETECLAIM
  | RPCCOMMAND_IMPORTSERVERCONTRACT
  | RPCCOMMAND_LISTSERVERCONTRACTS
  | RPCCOMMAND_REGISTERNYM
  | RPCCOMMAND_CREATEUNITDEFINITION
  | RPCCOMMAND_LISTUNITDEFINITIONS
  | RPCCOMMAND_ISSUEUNITDEFINITION
  | RPCCOMMAND_CREATEACCOUNT
  | RPCCOMMAND_LISTACCOUNTS
  | RPCCOMMAND_GETACCOUNTBALANCE
  | RPCCOMMAND_GETACCOUNTACTIVITY
  | RPCCOMMAND_SENDPAYMENT
  | RPCCOMMAND_MOVEFUNDS
  | RPCCOMMAND_ADDCONTACT
  | RPCCOMMAND_LISTCONTACTS
  | RPCCOMMAND_GETCONTACT
  | RPCCOMMAND_ADDCONTACTCLAIM
  | RPCCOMMAND_DELETECONTACTCLAIM
  | RPCCOMMAND_VERIFYCLAIM
  | RPCCOMMAND_ACCEPTVERIFICATION
  | RPCCOMMAND_SENDCONTACTMESSAGE
  | RPCCOMMAND_GETCONTACTACTIVITY
  | RPCCOMMAND_GETSERVERCONTRACT
  | RPCCOMMAND_GETPENDINGPAYMENTS
  | RPCCOMMAND_ACCEPTPENDINGPAYMENTS
  | RPCCOMMAND_GETCOMPATIBLEACCOUNTS
  | RPCCOMMAND_CREATECOMPATIBLEACCOUNT
  | RPCCOMMAND_GETWORKFLOW
  | RPCCOMMAND_GETSERVERPASSWORD
  | RPCCOMMAND_GETADMINNYM
  | RPCCOMMAND_GETUNITDEFINITION
  | RPCCOMMAND_GETTRANSACTIONDATA
  | RPCCOMMAND_LOOKUPACCOUNTID
  | RPCCOMMAND_RENAMEACCOUNT
  | RPCCOMMAND_ERROR

text \<open>The status codes the agent tells apart; every other code is \<open>RPCRESPONSE_OTHER\<close>
  with its number.\<close>

datatype RPCResponseCode =
    RPCRESPONSE_SUCCESS
  | RPCRESPONSE_QUEUED
  | RPCRESPONSE_OTHER nat

text \<open>The fields of \<open>proto::RPCCommand\<close> that the agent reads.\<close>

record RPCCommand =
  ctype :: RPCCommandType
  session :: "32 word"
  associatenym :: "string list"
  owner :: string
  sendpayment_sourceaccount :: string
  acceptpendingpayment :: "string list"
    \<comment> \<open>the \<open>destinationaccount\<close> of each \<open>acceptpendingpayment\<close> entry\<close>

text \<open>The fields of \<open>proto::RPCResponse\<close> that the agent reads: \<open>status\<close> holds the
  \<open>code\<close> of each status entry, \<open>task\<close> the \<open>id\<close> of each task entry.\<close>

record RPCResponse =
  rtype :: RPCCommandType
  status :: "RPCResponseCode list"
  identifiers :: "string list"
  task :: "string list"

datatype RPCPushType = RPCPUSH_ACCOUNT | RPCPUSH_CONTACT | RPCPUSH_TASK

record TaskComplete =
  tc_version :: nat
  tc_id :: string
  tc_result :: bool

record RPCPush =
  push_version :: nat
  push_type :: RPCPushType
  push_id :: string
  taskcomplete :: TaskComplete

subsection \<open>The engine and the codecs\<close>

text \<open>
  The agent calls into the engine (\<open>ot_\<close>) and into the protobuf and encoding
  libraries. None of them is part of the agent; they are parameters of the model:
  \<^item> \<open>RPC\<close>: \<open>ot_.RPC(command)\<close>;
  \<^item> \<open>AccountOwner i a\<close>: \<open>ot_.Client(i).Storage().AccountOwner(a)->str()\<close>;
  \<^item> \<open>DataToCommand\<close>, \<open>DataToPush\<close>: \<open>proto::DataToProto\<close>;
  \<^item> \<open>ResponseAsData\<close>, \<open>PushAsData\<close>: \<open>proto::ProtoAsData\<close>;
  \<^item> \<open>Validate\<close>: \<open>proto::Validate\<close> on an \<open>RPCPush\<close>;
  \<^item> \<open>Z85Encode\<close>: \<open>ot_.Crypto().Encode().Z85Encode\<close>.
\<close>

record Engine =
  RPC :: "RPCCommand \<Rightarrow> RPCResponse"
  AccountOwner :: "int \<Rightarrow> string \<Rightarrow> string"
  DataToCommand :: "data \<Rightarrow> RPCCommand"
  ResponseAsData :: "RPCResponse \<Rightarrow> data"
  DataToPush :: "data \<Rightarrow> RPCPush"
  PushAsData :: "RPCPush \<Rightarrow> data"
  Validate :: "RPCPush \<Rightarrow> bool"
  Z85Encode :: "data \<Rightarrow> string"

subsection \<open>Configuration tree\<close>

text \<open>
  \<open>config_\<close> is a property tree with sections and entries, each named by one path
  component (as \<open>otagent\<close>, \<open>clients\<close>, \<open>servers\<close> are). An entry's data either
  reads as a \<open>std::int64_t\<close> (\<open>get_value<std::int64_t>\<close> returns it) or does not
  (\<open>get_value\<close> throws \<open>ptree_bad_data\<close>).
\<close>

datatype entry = Int64 "64 word" | Text string

type_synonym ptree = "string \<rightharpoonup> (string \<rightharpoonup> entry)"

subsection \<open>The agent's state\<close>

text \<open>
  The members the handlers change, and what they emit:
  \<^item> \<open>nym_connection_map\<close>, \<open>task_connection_map\<close>: the two association tables;
  \<^item> \<open>config\<close>: the in-memory tree; \<open>settings_file\<close>: the tree last written to
    \<open>settings_path_\<close> (\<open>None\<close>: never written); \<open>settings_writable\<close>: whether the file
    can be opened for writing;
  \<^item> \<open>clients\<close>, \<open>servers\<close>: the session counters;
  \<^item> \<open>refreshes\<close>: the client indices given to \<open>schedule_refresh\<close>, in order;
  \<^item> \<open>frontend_sent\<close>, \<open>internal_sent\<close>: the messages given to \<open>frontend_->Send\<close>
    and \<open>internal_->Send\<close>, in order.
\<close>

record Agent =
  nym_connection_map :: "string \<rightharpoonup> data"
  task_connection_map :: "string \<rightharpoonup> (data \<times> string)"
  config :: ptree
  settings_file :: "ptree option"
  settings_writable :: bool
  clients :: "64 word"
  servers :: "64 word"
  refreshes :: "int list"
  frontend_sent :: "Message list"
  internal_sent :: "Message list"

section \<open>Association tables\<close>

text \<open>\<open>Agent::associate_nym\<close>: nothing for an empty nym; \<open>emplace\<close> only when \<open>find\<close>
  does not find the nym.\<close>

definition associate_nym :: "data \<Rightarrow> string \<Rightarrow> Agent \<Rightarrow> Agent" where
  "associate_nym connection nymID s =
     (if nymID = [] then s
      else (case nym_connection_map s nymID of
              None \<Rightarrow> s\<lparr>nym_connection_map := (nym_connection_map s)(nymID \<mapsto> connection)\<rparr>
            | Some _ \<Rightarrow> s))"

text \<open>The \<open>for\<close> loops that call \<open>associate_nym\<close> for each element of a list.\<close>

fun associate_nyms :: "data \<Rightarrow> string list \<Rightarrow> Agent \<Rightarrow> Agent" where
  "associate_nyms connection [] s = s"
| "associate_nyms connection (nym # nyms) s =
     associate_nyms connection nyms (associate_nym connection nym s)"

text \<open>\<open>Agent::associate_task\<close>: three assertions, then \<open>emplace\<close>, which inserts only
  when the map has no entry for the key.\<close>

definition associate_task :: "data \<Rightarrow> string \<Rightarrow> string \<Rightarrow> Agent \<Rightarrow> error + Agent" where
  "associate_task connection nymID task_id s =
     (if connection = [] then Inl AssertFailure
      else if nymID = [] then Inl AssertFailure
      else if task_id = [] then Inl AssertFailure
      else (case task_connection_map s task_id of
              None \<Rightarrow> Inr (s\<lparr>task_connection_map :=
                               (task_connection_map s)(task_id \<mapsto> (connection, nymID))\<rparr>)
            | Some _ \<Rightarrow> Inr s))"

section \<open>Session classifier\<close>

text \<open>\<open>Agent::session_to_client_index\<close>: the assertion, then the unsigned division,
  returned as an \<open>int\<close>.\<close>

definition session_to_client_index :: "32 word \<Rightarrow> error + int" where
  "session_to_client_index session' =
     (if session' mod 2 = 0 then Inr (sint (session' div 2)) else Inl AssertFailure)"

section \<open>ZAP handler\<close>

datatype Mechanism = Null | Plain | Curve | Unknown

datatype Status = Success | TemporaryError | AuthFailure | SystemError

record Request =
  mechanism :: Mechanism
  credentials :: "data list"

record Reply =
  code :: Status
  status_text :: string

text \<open>
  \<open>Agent::zap_handler\<close>, with \<open>client_pubkey_\<close> as the second argument.
  \<open>Credentials().at(0)\<close> comes first and throws on an empty list.
\<close>

definition zap_handler :: "Engine \<Rightarrow> string \<Rightarrow> Request \<Rightarrow> error + Reply" where
  "zap_handler ot client_pubkey request =
     (case credentials request of
        [] \<Rightarrow> Inl OutOfRange
      | pubkey # _ \<Rightarrow>
          if Curve \<noteq> mechanism request then
            Inr \<lparr>code = AuthFailure, status_text = ''Unsupported mechanism''\<rparr>
          else if client_pubkey \<noteq> Z85Encode ot pubkey then
            Inr \<lparr>code = AuthFailure, status_text = ''Incorrect pubkey''\<rparr>
          else
            Inr \<lparr>code = Success, status_text = ''OK''\<rparr>)"

section \<open>Configuration\<close>

text \<open>\<open>Agent::save_config\<close>: \<open>write_ini\<close> writes the whole tree to \<open>settings_path_\<close>,
  and throws when it cannot open the file.\<close>

definition save_config :: "Agent \<Rightarrow> error + Agent" where
  "save_config s =
     (if settings_writable s then Inr (s\<lparr>settings_file := Some (config s)\<rparr>)
      else Inl IniWriteError)"

text \<open>\<open>Agent::increment_config_value\<close>: both \<open>get_child\<close> calls throw on a missing
  name, \<open>get_value\<close> throws on data that is no integer; \<open>++value\<close> is the 64-bit
  increment (it wraps here at the largest value); \<open>save_config\<close> comes last.\<close>

definition increment_config_value :: "string \<Rightarrow> string \<Rightarrow> Agent \<Rightarrow> error + Agent" where
  "increment_config_value sectionName entryName s =
     (case config s sectionName of
        None \<Rightarrow> Inl BadPath
      | Some section' \<Rightarrow>
          (case section' entryName of
             None \<Rightarrow> Inl BadPath
           | Some (Text _) \<Rightarrow> Inl BadData
           | Some (Int64 v) \<Rightarrow>
               save_config
                 (s\<lparr>config := (config s)(sectionName \<mapsto> section'(entryName \<mapsto> Int64 (v + 1)))\<rparr>)))"

definition CONFIG_SECTION :: string where "CONFIG_SECTION = ''otagent''"
definition CONFIG_CLIENTS :: string where "CONFIG_CLIENTS = ''clients''"
definition CONFIG_SERVERS :: string where "CONFIG_SERVERS = ''servers''"

text \<open>\<open>Agent::schedule_refresh\<close> only calls the engine; the model records the index.\<close>

definition schedule_refresh :: "int \<Rightarrow> Agent \<Rightarrow> Agent" where
  "schedule_refresh instance' s = s\<lparr>refreshes := refreshes s @ [instance']\<rparr>"

text \<open>\<open>Agent::update_clients\<close>: \<open>static_cast<int>(newCount) - 1\<close> in 32 bits.\<close>

definition update_clients :: "Agent \<Rightarrow> error + Agent" where
  "update_clients s =
     (case increment_config_value CONFIG_SECTION CONFIG_CLIENTS s of
        Inl e \<Rightarrow> Inl e
      | Inr s1 \<Rightarrow>
          (let newCount = clients s1 + 1;
               newIndex = sint ((ucast newCount :: 32 word) - 1)
           in Inr (schedule_refresh newIndex (s1\<lparr>clients := newCount\<rparr>))))"

definition update_servers :: "Agent \<Rightarrow> error + Agent" where
  "update_servers s =
     (case increment_config_value CONFIG_SECTION CONFIG_SERVERS s of
        Inl e \<Rightarrow> Inl e
      | Inr s1 \<Rightarrow> Inr (s1\<lparr>servers := servers s1 + 1\<rparr>))"

section \<open>Worker handler\<close>

text \<open>The test \<open>0 < response.status_size() && c == response.status(0).code()\<close>.\<close>

definition status0_is :: "RPCResponseCode \<Rightarrow> RPCResponse \<Rightarrow> bool" where
  "status0_is c response = (0 < length (status response) \<and> c = status response ! 0)"

text \<open>
  The \<open>switch (response.type())\<close> of \<open>Agent::backend_handler\<close>. It returns the agent
  after the case's effects, and the value of \<open>taskNymID\<close>, which starts empty.
\<close>

definition backend_switch ::
  "Engine \<Rightarrow> RPCCommand \<Rightarrow> RPCResponse \<Rightarrow> data \<Rightarrow> Agent \<Rightarrow> error + (Agent \<times> string)" where
  "backend_switch ot command response connectionID s =
     (case rtype response of
        RPCCOMMAND_ADDCLIENTSESSION \<Rightarrow>
          (if status0_is RPCRESPONSE_SUCCESS response
           then (case update_clients s of Inl e \<Rightarrow> Inl e | Inr s' \<Rightarrow> Inr (s', []))
           else Inr (s, []))
      | RPCCOMMAND_ADDSERVERSESSION \<Rightarrow>
          (if status0_is RPCRESPONSE_SUCCESS response
           then (case update_servers s of Inl e \<Rightarrow> Inl e | Inr s' \<Rightarrow> Inr (s', []))
           else Inr (s, []))
      | RPCCOMMAND_CREATENYM \<Rightarrow>
          Inr (associate_nyms connectionID (identifiers response) s, [])
      | RPCCOMMAND_REGISTERNYM \<Rightarrow> Inr (s, owner command)
      | RPCCOMMAND_ISSUEUNITDEFINITION \<Rightarrow> Inr (s, owner command)
      | RPCCOMMAND_CREATEACCOUNT \<Rightarrow> Inr (s, owner command)
      | RPCCOMMAND_CREATECOMPATIBLEACCOUNT \<Rightarrow> Inr (s, owner command)
      | RPCCOMMAND_SENDPAYMENT \<Rightarrow>
          (if status0_is RPCRESPONSE_QUEUED response
           then (case session_to_client_index (session command) of
                   Inl e \<Rightarrow> Inl e
                 | Inr idx \<Rightarrow>
                     Inr (s, AccountOwner ot idx (sendpayment_sourceaccount command)))
           else Inr (s, []))
      | RPCCOMMAND_ACCEPTPENDINGPAYMENTS \<Rightarrow>
          (if status0_is RPCRESPONSE_QUEUED response
           then (case acceptpendingpayment command of
                   [] \<Rightarrow> Inl RepeatedFieldIndex
                 | destinationaccount # _ \<Rightarrow>
                     (case session_to_client_index (session command) of
                        Inl e \<Rightarrow> Inl e
                      | Inr idx \<Rightarrow> Inr (s, AccountOwner ot idx destinationaccount)))
           else Inr (s, []))
      | _ \<Rightarrow> Inr (s, []))"

text \<open>
  \<open>Agent::backend_handler\<close>: the assertion on the body, the command's
  \<open>associatenym\<close> list, the engine call, the switch, the task association, the reply.
\<close>

definition backend_handler :: "Engine \<Rightarrow> Message \<Rightarrow> Agent \<Rightarrow> error + (Agent \<times> Message)" where
  "backend_handler ot message s =
     (if \<not> 1 < length (Body message) then Inl AssertFailure
      else
        (let command = DataToCommand ot (Body message ! 0);
             connectionID = Body message ! 1;
             s1 = associate_nyms connectionID (associatenym command) s;
             response = RPC ot command
         in case backend_switch ot command response connectionID s1 of
              Inl e \<Rightarrow> Inl e
            | Inr (s2, taskNymID) \<Rightarrow>
                (case (if status0_is RPCRESPONSE_QUEUED response \<and> 0 < length (task response)
                       then associate_task connectionID taskNymID (task response ! 0) s2
                       else Inr s2) of
                   Inl e \<Rightarrow> Inl e
                 | Inr s3 \<Rightarrow>
                     Inr (s3, AddFrame (ResponseAsData ot response) (ReplyFactory message)))))"

section \<open>Frontend handler\<close>

text \<open>\<open>Agent::frontend_handler\<close>: an empty body is dropped; otherwise the last header
  frame is appended and the message goes to the internal socket.\<close>

definition frontend_handler :: "Message \<Rightarrow> Agent \<Rightarrow> error + Agent" where
  "frontend_handler message s =
     (let size' = length (Header message) in
      if \<not> 0 < size' then Inl AssertFailure
      else if 0 = length (Body message) then Inr s
      else
        (let identity = Header message ! (size' - 1) in
         if \<not> 0 < length identity then Inl AssertFailure
         else Inr (s\<lparr>internal_sent := internal_sent s @ [AddFrame identity message]\<rparr>)))"

section \<open>Push bridge\<close>

definition RPCPUSH_VERSION :: nat where "RPCPUSH_VERSION = 2"
definition TASKCOMPLETE_VERSION :: nat where "TASKCOMPLETE_VERSION = 1"

text \<open>\<open>Agent::instantiate_push\<close>: the connection, the delimiter and \<open>"PUSH"\<close>, that is a
  header of one frame and a body of one frame, as its two last assertions say.\<close>

definition instantiate_push :: "data \<Rightarrow> error + Message" where
  "instantiate_push connectionID =
     (if \<not> 0 < length connectionID then Inl AssertFailure
      else Inr \<lparr>Header = [connectionID], Body = [''PUSH'']\<rparr>)"

text \<open>\<open>Agent::send_task_push\<close>.\<close>

definition send_task_push ::
  "Engine \<Rightarrow> data \<Rightarrow> string \<Rightarrow> string \<Rightarrow> bool \<Rightarrow> Agent \<Rightarrow> error + Agent" where
  "send_task_push ot connectionID taskID nymID result s =
     (if connectionID = [] then Inl AssertFailure
      else if taskID = [] then Inl AssertFailure
      else if nymID = [] then Inl AssertFailure
      else
        (case instantiate_push connectionID of
           Inl e \<Rightarrow> Inl e
         | Inr push \<Rightarrow>
             (let message =
                    \<lparr>push_version = RPCPUSH_VERSION, push_type = RPCPUSH_TASK, push_id = nymID,
                     taskcomplete =
                       \<lparr>tc_version = TASKCOMPLETE_VERSION, tc_id = taskID, tc_result = result\<rparr>\<rparr>
              in if \<not> Validate ot message then Inl AssertFailure
                 else Inr (s\<lparr>frontend_sent :=
                               frontend_sent s @ [AddFrame (PushAsData ot message) push]\<rparr>))))"

text \<open>\<open>Agent::process_task_push\<close>: \<open>find\<close>, then either the early return or \<open>erase\<close>,
  the assertion on the nym and \<open>send_task_push\<close>.\<close>

definition process_task_push :: "Engine \<Rightarrow> Message \<Rightarrow> Agent \<Rightarrow> error + Agent" where
  "process_task_push ot message s =
     (case Body message of
        [] \<Rightarrow> Inl OutOfRange
      | payload # _ \<Rightarrow>
          (let push = DataToPush ot payload;
               taskID = tc_id (taskcomplete push);
               success = tc_result (taskcomplete push)
           in case task_connection_map s taskID of
                None \<Rightarrow> Inr s
              | Some (connectionID, nymID) \<Rightarrow>
                  (let s1 = s\<lparr>task_connection_map := (task_connection_map s)(taskID := None)\<rparr>
                   in if nymID = [] then Inl AssertFailure
                      else send_task_push ot connectionID taskID nymID success s1)))"

text \<open>\<open>Agent::push_handler\<close>: one frame is a task push, three frames are a nym push,
  anything else is dropped.\<close>

definition push_handler :: "Engine \<Rightarrow> Message \<Rightarrow> Agent \<Rightarrow> error + Agent" where
  "push_handler ot message s =
     (if 1 = length (Body message) then process_task_push ot message s
      else if 3 \<noteq> length (Body message) then Inr s
      else
        (let nymID = Body message ! 0;
             payload = Body message ! 1;
             instance' = Body message ! 2
         in case nym_connection_map s nymID of
              None \<Rightarrow> Inr s
            | Some connection \<Rightarrow>
                (case instantiate_push connection of
                   Inl e \<Rightarrow> Inl e
                 | Inr notification \<Rightarrow>
                     Inr (s\<lparr>frontend_sent :=
                              frontend_sent s @
                                [AddFrame instance' (AddFrame payload notification)]\<rparr>))))"

section \<open>Reading the configuration\<close>

text \<open>The read that \<open>increment_config_value\<close> starts with (\<open>get_child\<close> twice, then
  \<open>get_value<std::int64_t>\<close>), on its own: what a reader of the entry obtains.\<close>

definition get_config_value :: "string \<Rightarrow> string \<Rightarrow> Agent \<Rightarrow> error + 64 word" where
  "get_config_value sectionName entryName s =
     (case config s sectionName of
        None \<Rightarrow> Inl BadPath
      | Some section' \<Rightarrow>
          (case section' entryName of
             None \<Rightarrow> Inl BadPath
           | Some (Text _) \<Rightarrow> Inl BadData
           | Some (Int64 v) \<Rightarrow> Inr v))"

section \<open>Example inputs\<close>

text \<open>An agent with one client session, no association and nothing sent yet.\<close>

definition example_agent :: Agent where
  "example_agent =
     \<lparr>nym_connection_map = Map.empty,
      task_connection_map = Map.empty,
      config = [''otagent'' \<mapsto> [''clients'' \<mapsto> Int64 1, ''servers'' \<mapsto> Int64 0]],
      settings_file = None,
      settings_writable = True,
      clients = 1,
      servers = 0,
      refreshes = [],
      frontend_sent = [],
      internal_sent = []\<rparr>"

text \<open>An engine that decodes every request to \<open>command\<close> and answers \<open>response\<close>;
  its push decoder reads the frame as the id of a successful task.\<close>

definition example_engine :: "RPCCommand \<Rightarrow> RPCResponse \<Rightarrow> Engine" where
  "example_engine command response =
     \<lparr>RPC = (\<lambda>_. response),
      AccountOwner = (\<lambda>idx account. ''NymX''),
      DataToCommand = (\<lambda>_. command),
      ResponseAsData = (\<lambda>_. ''response''),
      DataToPush = (\<lambda>d. \<lparr>push_version = 2, push_type = RPCPUSH_TASK, push_id = [],
                           taskcomplete = \<lparr>tc_version = 1, tc_id = d, tc_result = True\<rparr>\<rparr>),
      PushAsData = (\<lambda>p. push_id p @ '':'' @ tc_id (taskcomplete p)),
      Validate = (\<lambda>p. push_id p \<noteq> [] \<and> tc_id (taskcomplete p) \<noteq> []),
      Z85Encode = (\<lambda>d. d)\<rparr>"

definition example_command :: "RPCCommandType \<Rightarrow> RPCCommand" where
  "example_command kind =
     \<lparr>ctype = kind, session = 4, associatenym = [], owner = ''NymO'',
      sendpayment_sourceaccount = ''A'', acceptpendingpayment = [''B'']\<rparr>"

definition example_response :: "RPCCommandType \<Rightarrow> RPCResponseCode list \<Rightarrow> RPCResponse" where
  "example_response kind codes =
     \<lparr>rtype = kind, status = codes, identifiers = [''N1''], task = [''T1'']\<rparr>"

definition example_ot :: "RPCCommandType \<Rightarrow> RPCResponseCode list \<Rightarrow> Engine" where
  "example_ot kind codes = example_engine (example_command kind) (example_response kind codes)"

text \<open>A request as a worker receives it, from the connection \<open>C\<close>.\<close>

definition example_request :: Message where
  "example_request = \<lparr>Header = [''C''], Body = [''command'', ''C'']\<rparr>"



section \<open>Notions used in the statements\<close>

text \<open>The kinds whose case of the switch assigns \<open>taskNymID\<close>.\<close>

definition task_kinds :: "RPCCommandType set" where
  "task_kinds =
     {RPCCOMMAND_REGISTERNYM, RPCCOMMAND_ISSUEUNITDEFINITION, RPCCOMMAND_CREATEACCOUNT,
      RPCCOMMAND_CREATECOMPATIBLEACCOUNT, RPCCOMMAND_SENDPAYMENT,
      RPCCOMMAND_ACCEPTPENDINGPAYMENTS}"

text \<open>What the three assertions of \<open>associate_task\<close> establish for every entry of
  the task table: connection, nym and task id are non-empty.\<close>

definition task_table_ok :: "Agent \<Rightarrow> bool" where
  "task_table_ok s =
     (\<forall>taskID connectionID nymID.
        task_connection_map s taskID = Some (connectionID, nymID) \<longrightarrow>
        connectionID \<noteq> [] \<and> nymID \<noteq> [] \<and> taskID \<noteq> [])"

section \<open>Theorems\<close>

lemma associate_nym_known:
  "nym_connection_map s n = Some c \<Longrightarrow> associate_nym c' n s = s"
  by (simp add: associate_nym_def)

lemma associate_nym_keeps:
  "nym_connection_map s n = Some c \<Longrightarrow> nym_connection_map (associate_nym c' m s) n = Some c"
  by (auto simp: associate_nym_def split: option.splits)

lemma associate_calls_keep:
  "nym_connection_map s n = Some c \<Longrightarrow>
   nym_connection_map (foldl (\<lambda>st (c', m). associate_nym c' m st) s ops) n = Some c"
proof (induction ops arbitrary: s)
  case Nil
  then show ?case by simp
next
  case (Cons op ops)
  obtain c' m where op: "op = (c', m)" by (cases op)
  have "nym_connection_map (associate_nym c' m s) n = Some c"
    using Cons.prems by (rule associate_nym_keeps)
  then show ?case using Cons.IH op by simp
qed

subsection \<open>C1: nym association is first-write-wins\<close>

text \<open>
  Claim C1. Let \<open>n\<close> be a non-empty nym with no entry yet, so that
  \<open>associate_nym C1 n\<close> inserts it. Then a lookup of \<open>n\<close> returns \<open>C1\<close>, and after any
  further calls of \<open>associate_nym\<close> (the list \<open>ops\<close> of connection and nym pairs), a call
  \<open>associate_nym C2 n\<close> leaves the agent, and so the nym table, unchanged: the lookup of
  \<open>n\<close> still returns \<open>C1\<close>. This holds for every \<open>C2\<close>, equal to \<open>C1\<close> or not.
\<close>

theorem associate_nym_first_write_wins:
  assumes "n \<noteq> []" and "nym_connection_map s n = None"
  shows "nym_connection_map (associate_nym C1 n s) n = Some C1 \<and>
         (let s2 = foldl (\<lambda>st (c, m). associate_nym c m st) (associate_nym C1 n s) ops
          in associate_nym C2 n s2 = s2 \<and>
             nym_connection_map (associate_nym C2 n s2) n = Some C1)"
proof -
  have first: "nym_connection_map (associate_nym C1 n s) n = Some C1"
    using assms by (simp add: associate_nym_def)
  then have later:
    "nym_connection_map
       (foldl (\<lambda>st (c, m). associate_nym c m st) (associate_nym C1 n s) ops) n = Some C1"
    by (rule associate_calls_keep)
  then show ?thesis
    using first by (simp add: Let_def associate_nym_known)
qed

theorem associate_nym_first_write_wins_witness:
  "''N1'' \<noteq> [] \<and> nym_connection_map example_agent ''N1'' = None \<and> ''A'' \<noteq> ''B'' \<and>
   nym_connection_map
     (associate_nym ''B'' ''N1''
        (associate_nym ''B'' ''N2'' (associate_nym ''A'' ''N1'' example_agent))) ''N1''
     = Some ''A''"
proof -
  have h1: "''N1'' \<noteq> []" by simp
  have h2: "nym_connection_map example_agent ''N1'' = None"
    by (simp add: example_agent_def)
  have "nym_connection_map
     (associate_nym ''B'' ''N1''
        (associate_nym ''B'' ''N2'' (associate_nym ''A'' ''N1'' example_agent))) ''N1''
     = Some ''A''"
    using associate_nym_first_write_wins [OF h1 h2, of "''A''" "[(''B'', ''N2'')]" "''B''"]
    by (auto simp: Let_def)
  then show ?thesis using h2 by simp
qed

subsection \<open>C8: the session classifier\<close>

lemma sint_half:
  fixes x :: "32 word"
  shows "sint (x div 2) = uint x div 2"
proof -
  have bound: "uint x < 2 ^ 32" using uint_bounded [of x] by simp
  have half: "uint (x div 2) = uint x div 2" by (simp add: uint_div_distrib)
  have lo: "- (2 ^ 31) \<le> uint x div 2"
    by (rule order_trans [of _ 0]) simp_all
  have hi: "uint x div 2 < 2 ^ 31" using bound by simp
  have "sint (x div 2) = signed_take_bit 31 (uint x div 2)"
    by (simp add: sint_uint half)
  also have "\<dots> = uint x div 2"
    using lo hi by (rule signed_take_bit_int_eq_self)
  finally show ?thesis .
qed

lemma mod2_word:
  fixes x :: "32 word"
  shows "x mod 2 = 0 \<longleftrightarrow> even (uint x)"
  by (simp add: word_uint_eq_iff uint_mod_distrib even_iff_mod_2_eq_zero)

text \<open>
  Claim C8. For every 32-bit session number: when its value is even,
  \<open>session_to_client_index\<close> returns half of it (the returned \<open>int\<close> is the exact
  quotient, no wrap-around); when it is odd, the assertion fails. So the assertion
  fails exactly on the odd session numbers.
\<close>

theorem session_to_client_index_even_odd:
  "session_to_client_index x =
     (if even (uint x) then Inr (uint x div 2) else Inl AssertFailure)"
  by (simp add: session_to_client_index_def sint_half mod2_word)

theorem session_to_client_index_even_odd_witness:
  "session_to_client_index 4 = Inr 2 \<and> session_to_client_index 3 = Inl AssertFailure"
  using session_to_client_index_even_odd [of 4] session_to_client_index_even_odd [of 3]
  by simp

subsection \<open>C10: the ZAP handler reads the first credential before anything else\<close>

text \<open>
  Claim C10. For every authentication request whose credentials list is empty,
  whatever its mechanism (CurveZMQ or not), \<open>zap_handler\<close> throws (the
  \<open>std::out_of_range\<close> of \<open>at(0)\<close>): it returns no reply, in particular no
  \<open>AuthFailure\<close> reply.
\<close>

theorem zap_handler_empty_credentials:
  "credentials request = [] \<Longrightarrow>
   zap_handler ot key request = Inl OutOfRange \<and> (\<forall>reply. zap_handler ot key request \<noteq> Inr reply)"
  by (simp add: zap_handler_def)

theorem zap_handler_empty_credentials_witness:
  "credentials \<lparr>mechanism = Plain, credentials = []\<rparr> = [] \<and>
   zap_handler (example_ot RPCCOMMAND_ERROR []) ''KEY''
     \<lparr>mechanism = Plain, credentials = []\<rparr> = Inl OutOfRange"
  using zap_handler_empty_credentials
    [of "\<lparr>mechanism = Plain, credentials = []\<rparr>"
        "example_ot RPCCOMMAND_ERROR []" "''KEY''"]
  by simp

subsection \<open>C7: the three answers of the ZAP handler\<close>

text \<open>
  With at least one credential, \<open>pubkey\<close> the first one, the handler gives the three
  answers: \<open>AuthFailure\<close> with text \<open>Unsupported mechanism\<close> when the mechanism is not
  CurveZMQ; otherwise \<open>AuthFailure\<close> with text \<open>Incorrect pubkey\<close> when the Z85
  encoding of \<open>pubkey\<close> differs from the configured client public key; otherwise
  \<open>Success\<close> with text \<open>OK\<close>.
\<close>

lemma zap_handler_with_credential:
  assumes "credentials request = pubkey # rest"
  shows "(mechanism request \<noteq> Curve \<longrightarrow>
            zap_handler ot key request =
              Inr \<lparr>code = AuthFailure, status_text = ''Unsupported mechanism''\<rparr>) \<and>
         (mechanism request = Curve \<and> Z85Encode ot pubkey \<noteq> key \<longrightarrow>
            zap_handler ot key request =
              Inr \<lparr>code = AuthFailure, status_text = ''Incorrect pubkey''\<rparr>) \<and>
         (mechanism request = Curve \<and> Z85Encode ot pubkey = key \<longrightarrow>
            zap_handler ot key request = Inr \<lparr>code = Success, status_text = ''OK''\<rparr>)"
  using assms by (auto simp: zap_handler_def)

text \<open>
  Claim C7 says that every authentication request whose mechanism is not CurveZMQ is
  answered \<open>AuthFailure\<close> with text \<open>Unsupported mechanism\<close>. The handler has that
  answer, but reads the first credential before it tests the mechanism: the request
  with the NULL mechanism, which carries no credential, is not answered at all, the
  read throws.
\<close>

theorem zap_handler_null_mechanism_throws:
  "mechanism \<lparr>mechanism = Null, credentials = []\<rparr> \<noteq> Curve \<and>
   zap_handler (example_ot RPCCOMMAND_ERROR []) ''KEY''
     \<lparr>mechanism = Null, credentials = []\<rparr> = Inl OutOfRange \<and>
   zap_handler (example_ot RPCCOMMAND_ERROR []) ''KEY''
     \<lparr>mechanism = Null, credentials = []\<rparr>
   \<noteq> Inr \<lparr>code = AuthFailure, status_text = ''Unsupported mechanism''\<rparr>"
  by (simp add: zap_handler_def)

subsection \<open>C9: incrementing a configuration value\<close>

lemma sint_succ:
  fixes v :: "64 word"
  assumes "sint v \<noteq> 2 ^ 63 - 1"
  shows "sint (v + 1) = sint v + 1"
proof -
  have lo: "- (2 ^ 63) \<le> sint v" using sint_greater_eq [of v] by simp
  have hi: "sint v < 2 ^ 63" using sint_less [of v] by simp
  have "sint (v + 1) = signed_take_bit 63 (sint v + 1)"
    by (simp add: sint_word_add)
  also have "\<dots> = sint v + 1"
    using lo hi assms by (intro signed_take_bit_int_eq_self) simp_all
  finally show ?thesis .
qed

text \<open>
  Claim C9 as stated, for every integer value, fails at the largest 64-bit value:
  the increment wraps, and a reader obtains the smallest 64-bit value, not \<open>v + 1\<close>.
\<close>

theorem increment_config_value_persists_counterexample:
  "get_config_value ''otagent'' ''clients''
     (example_agent\<lparr>config := [''otagent'' \<mapsto> [''clients'' \<mapsto> Int64 9223372036854775807]]\<rparr>)
     = Inr 9223372036854775807 \<and>
   map_sum id (get_config_value ''otagent'' ''clients'')
     (increment_config_value ''otagent'' ''clients''
        (example_agent\<lparr>config := [''otagent'' \<mapsto> [''clients'' \<mapsto> Int64 9223372036854775807]]\<rparr>))
     = Inr (Inr 9223372036854775808) \<and>
   sint (9223372036854775807 :: 64 word) = 9223372036854775807 \<and>
   sint (9223372036854775808 :: 64 word) = - 9223372036854775808"
  by (simp add: get_config_value_def increment_config_value_def save_config_def example_agent_def)

text \<open>
  Claim C9, amended. Let the entry \<open>key\<close> of the section \<open>sec\<close> hold an integer \<open>v\<close>
  below the largest 64-bit value (a reader obtains \<open>v\<close>). Whenever
  \<open>increment_config_value\<close> returns, a reader of the entry obtains \<open>v + 1\<close>, and the
  settings file holds the whole in-memory tree, new value included: \<open>save_config\<close> ran
  before the return. And it does return when the settings file can be written.
\<close>

theorem increment_config_value_persists:
  assumes read: "get_config_value sec key s = Inr v"
    and below: "sint v < 9223372036854775807"
  shows "(\<forall>s'. increment_config_value sec key s = Inr s' \<longrightarrow>
            (\<exists>v'. get_config_value sec key s' = Inr v' \<and> sint v' = sint v + 1) \<and>
            settings_file s' = Some (config s')) \<and>
         (settings_writable s \<longrightarrow> (\<exists>s'. increment_config_value sec key s = Inr s'))"
proof -
  from read obtain section' where
    sec: "config s sec = Some section'" and ent: "section' key = Some (Int64 v)"
    by (auto simp: get_config_value_def split: option.splits entry.splits)
  let ?tree = "(config s)(sec \<mapsto> section'(key \<mapsto> Int64 (v + 1)))"
  let ?s' = "s\<lparr>config := ?tree, settings_file := Some ?tree\<rparr>"
  have step: "increment_config_value sec key s =
                (if settings_writable s then Inr ?s' else Inl IniWriteError)"
    using sec ent by (simp add: increment_config_value_def save_config_def)
  have rd: "get_config_value sec key ?s' = Inr (v + 1)"
    by (simp add: get_config_value_def)
  have ar: "sint (v + 1) = sint v + 1"
    using below by (intro sint_succ) simp
  have fl: "settings_file ?s' = Some (config ?s')"
    by simp
  have A: "\<forall>s'. increment_config_value sec key s = Inr s' \<longrightarrow>
            (\<exists>v'. get_config_value sec key s' = Inr v' \<and> sint v' = sint v + 1) \<and>
            settings_file s' = Some (config s')"
  proof (intro allI impI)
    fix s'
    assume "increment_config_value sec key s = Inr s'"
    then have "s' = ?s'" by (simp add: step split: if_splits)
    then show "(\<exists>v'. get_config_value sec key s' = Inr v' \<and> sint v' = sint v + 1) \<and>
            settings_file s' = Some (config s')"
      using rd ar fl by blast
  qed
  have B: "settings_writable s \<longrightarrow> (\<exists>s'. increment_config_value sec key s = Inr s')"
    by (simp add: step)
  show ?thesis using A B by blast
qed

theorem increment_config_value_persists_witness:
  "get_config_value ''otagent'' ''clients'' example_agent = Inr 1 \<and>
   sint (1 :: 64 word) < 9223372036854775807 \<and>
   settings_writable example_agent \<and>
   (\<exists>s'. increment_config_value ''otagent'' ''clients'' example_agent = Inr s' \<and>
          get_config_value ''otagent'' ''clients'' s' = Inr 2 \<and>
          settings_file s' = Some (config s'))"
proof -
  have r: "get_config_value ''otagent'' ''clients'' example_agent = Inr 1"
    by (simp add: get_config_value_def example_agent_def)
  have b: "sint (1 :: 64 word) < 9223372036854775807" by simp
  have w: "settings_writable example_agent"
    by (simp add: example_agent_def)
  note t = increment_config_value_persists [OF r b]
  from t w obtain s' where s': "increment_config_value ''otagent'' ''clients'' example_agent = Inr s'"
    by blast
  have f: "settings_file s' = Some (config s')" using t s' by blast
  have "get_config_value ''otagent'' ''clients'' s' = Inr 2"
    using s' r
    by (auto simp: increment_config_value_def save_config_def get_config_value_def example_agent_def
          split: if_splits)
  then show ?thesis using r b w s' f by blast
qed

section \<open>Lemmas on the worker handler\<close>

lemma example_ot_simps:
  "DataToCommand (example_ot kind codes) d = example_command kind"
  "RPC (example_ot kind codes) c = example_response kind codes"
  "ResponseAsData (example_ot kind codes) r = ''response''"
  by (simp_all add: example_ot_def example_engine_def)

lemma example_request_simps:
  "Body example_request = [''command'', ''C'']"
  "Header example_request = [''C'']"
  by (simp_all add: example_request_def)

lemma associate_nym_task_map [simp]:
  "task_connection_map (associate_nym c n s) = task_connection_map s"
  by (simp add: associate_nym_def split: option.splits)

lemma associate_nyms_task_map [simp]:
  "task_connection_map (associate_nyms c ns s) = task_connection_map s"
  by (induction ns arbitrary: s) simp_all

lemma associate_nyms_keeps:
  "nym_connection_map s n = Some c \<Longrightarrow> nym_connection_map (associate_nyms c' ns s) n = Some c"
  by (induction ns arbitrary: s) (simp_all add: associate_nym_keeps)

lemma associate_nyms_fresh:
  "nym_connection_map s n = None \<Longrightarrow>
   nym_connection_map (associate_nyms c ns s) n = (if n \<in> set ns \<and> n \<noteq> [] then Some c else None)"
proof (induction ns arbitrary: s)
  case Nil
  then show ?case by simp
next
  case (Cons m ns)
  show ?case
  proof (cases "m = n \<and> n \<noteq> []")
    case True
    then have "nym_connection_map (associate_nym c m s) n = Some c"
      using Cons.prems by (simp add: associate_nym_def)
    then show ?thesis using True by (simp add: associate_nyms_keeps)
  next
    case False
    then have "nym_connection_map (associate_nym c m s) n = None"
      using Cons.prems by (auto simp: associate_nym_def split: option.splits)
    then show ?thesis using False Cons.IH by auto
  qed
qed

lemma increment_config_value_tables:
  "increment_config_value a b s = Inr s' \<Longrightarrow>
   task_connection_map s' = task_connection_map s \<and> nym_connection_map s' = nym_connection_map s"
  by (auto simp: increment_config_value_def save_config_def
           split: option.splits entry.splits if_splits)

lemma update_clients_tables:
  "update_clients s = Inr s' \<Longrightarrow>
   task_connection_map s' = task_connection_map s \<and> nym_connection_map s' = nym_connection_map s"
  by (auto simp: update_clients_def schedule_refresh_def Let_def
           dest: increment_config_value_tables split: sum.splits)

lemma update_servers_tables:
  "update_servers s = Inr s' \<Longrightarrow>
   task_connection_map s' = task_connection_map s \<and> nym_connection_map s' = nym_connection_map s"
  by (auto simp: update_servers_def dest: increment_config_value_tables split: sum.splits)

lemma backend_switch_task_map:
  "backend_switch ot command response c s = Inr (s2, n) \<Longrightarrow>
   task_connection_map s2 = task_connection_map s"
  by (cases "rtype response")
     (auto simp: backend_switch_def dest: update_clients_tables update_servers_tables
           split: if_splits sum.splits list.splits)

lemma backend_switch_other_kinds:
  "rtype response \<notin> task_kinds \<Longrightarrow>
   backend_switch ot command response c s = Inr (s2, n) \<Longrightarrow> n = []"
  by (cases "rtype response")
     (auto simp: backend_switch_def task_kinds_def split: if_splits sum.splits)

lemma status0_exclusive:
  "status0_is RPCRESPONSE_QUEUED r \<Longrightarrow> \<not> status0_is RPCRESPONSE_SUCCESS r"
  by (auto simp: status0_is_def)

lemma backend_switch_other_returns:
  "rtype response \<notin> task_kinds \<Longrightarrow>
   (status0_is RPCRESPONSE_SUCCESS response \<longrightarrow>
      rtype response \<noteq> RPCCOMMAND_ADDCLIENTSESSION \<and>
      rtype response \<noteq> RPCCOMMAND_ADDSERVERSESSION) \<Longrightarrow>
   \<exists>s2. backend_switch ot command response c s = Inr (s2, [])"
  by (cases "rtype response") (auto simp: backend_switch_def task_kinds_def)



lemma backend_handler_unfold:
  assumes body: "1 < length (Body message)"
    and cmd: "command = DataToCommand ot (Body message ! 0)"
    and conn: "connectionID = Body message ! 1"
    and resp: "response = RPC ot command"
  shows "backend_handler ot message s =
      (case backend_switch ot command response connectionID
              (associate_nyms connectionID (associatenym command) s) of
         Inl e \<Rightarrow> Inl e
       | Inr (s2, taskNymID) \<Rightarrow>
           (case (if status0_is RPCRESPONSE_QUEUED response \<and> 0 < length (task response)
                  then associate_task connectionID taskNymID (task response ! 0) s2
                  else Inr s2) of
              Inl e \<Rightarrow> Inl e
            | Inr s3 \<Rightarrow>
                Inr (s3, AddFrame (ResponseAsData ot response) (ReplyFactory message))))"
proof -
  have nb: "(\<not> 1 < length (Body message)) = False" using body by simp
  show ?thesis
    unfolding resp cmd conn backend_handler_def Let_def nb by (simp only: if_False)
qed

subsection \<open>C2: the kinds that set no task nym\<close>

text \<open>
  For a response whose kind is none of RegisterNym, IssueUnitDefinition,
  CreateAccount, CreateCompatibleAccount, SendPayment and AcceptPendingPayments (the
  switch reads the kind from the response):
  \<^item> \<open>taskNymID\<close> is empty after the switch;
  \<^item> whenever the handler returns, the task table is as it was before;
  \<^item> when the first status of the response is QUEUED and the response has a task
    entry, the handler does not return: the assertion of \<open>associate_task\<close> fails;
  \<^item> otherwise the handler returns (for an AddClientSession or AddServerSession
    response whose first status is SUCCESS the return depends on the configuration
    update, which this statement leaves out).
\<close>

lemma backend_handler_other_kinds_table:
  assumes body: "1 < length (Body message)"
    and cmd: "command = DataToCommand ot (Body message ! 0)"
    and conn: "connectionID = Body message ! 1"
    and resp: "response = RPC ot command"
    and other: "rtype response \<notin> task_kinds"
  shows "(\<forall>s2 taskNymID.
            backend_switch ot command response connectionID
              (associate_nyms connectionID (associatenym command) s) = Inr (s2, taskNymID) \<longrightarrow>
            taskNymID = []) \<and>
         (\<forall>s' reply. backend_handler ot message s = Inr (s', reply) \<longrightarrow>
            task_connection_map s' = task_connection_map s) \<and>
         (status0_is RPCRESPONSE_QUEUED response \<and> task response \<noteq> [] \<longrightarrow>
            backend_handler ot message s = Inl AssertFailure) \<and>
         (\<not> (status0_is RPCRESPONSE_QUEUED response \<and> task response \<noteq> []) \<and>
          (status0_is RPCRESPONSE_SUCCESS response \<longrightarrow>
             rtype response \<noteq> RPCCOMMAND_ADDCLIENTSESSION \<and>
             rtype response \<noteq> RPCCOMMAND_ADDSERVERSESSION) \<longrightarrow>
            (\<exists>s' reply. backend_handler ot message s = Inr (s', reply)))"
proof -
  let ?s1 = "associate_nyms connectionID (associatenym command) s"
  let ?reply = "AddFrame (ResponseAsData ot response) (ReplyFactory message)"
  note unfold = backend_handler_unfold [OF body cmd conn resp, of s]
  have empty: "\<And>s2 n. backend_switch ot command response connectionID ?s1 = Inr (s2, n) \<Longrightarrow> n = []"
    using backend_switch_other_kinds [OF other] by blast
  have kept: "\<And>s2 n. backend_switch ot command response connectionID ?s1 = Inr (s2, n) \<Longrightarrow>
                task_connection_map s2 = task_connection_map s"
    using backend_switch_task_map by fastforce
  have noassoc: "\<And>t s2. associate_task connectionID [] t s2 = Inl AssertFailure"
    by (simp add: associate_task_def)
  have P1: "\<forall>s2 taskNymID.
            backend_switch ot command response connectionID ?s1 = Inr (s2, taskNymID) \<longrightarrow>
            taskNymID = []"
    using empty by blast
  have P2: "\<forall>s' reply. backend_handler ot message s = Inr (s', reply) \<longrightarrow>
            task_connection_map s' = task_connection_map s"
  proof (intro allI impI)
    fix s' reply
    assume ret: "backend_handler ot message s = Inr (s', reply)"
    then obtain s2 n where sw: "backend_switch ot command response connectionID ?s1 = Inr (s2, n)"
      by (auto simp: unfold split: sum.splits)
    have n: "n = []" using empty [OF sw] .
    have "s' = s2"
      using ret sw n by (auto simp: unfold noassoc split: if_splits sum.splits)
    then show "task_connection_map s' = task_connection_map s"
      using kept [OF sw] by simp
  qed
  have P3: "status0_is RPCRESPONSE_QUEUED response \<and> task response \<noteq> [] \<longrightarrow>
            backend_handler ot message s = Inl AssertFailure"
  proof (intro impI, elim conjE)
    assume q: "status0_is RPCRESPONSE_QUEUED response" and t: "task response \<noteq> []"
    have "\<not> status0_is RPCRESPONSE_SUCCESS response"
      using q by (rule status0_exclusive)
    then obtain s2 where "backend_switch ot command response connectionID ?s1 = Inr (s2, [])"
      using backend_switch_other_returns [OF other] by blast
    then show "backend_handler ot message s = Inl AssertFailure"
      using q t by (simp add: unfold noassoc)
  qed
  have P4: "\<not> (status0_is RPCRESPONSE_QUEUED response \<and> task response \<noteq> []) \<and>
          (status0_is RPCRESPONSE_SUCCESS response \<longrightarrow>
             rtype response \<noteq> RPCCOMMAND_ADDCLIENTSESSION \<and>
             rtype response \<noteq> RPCCOMMAND_ADDSERVERSESSION) \<longrightarrow>
            (\<exists>s' reply. backend_handler ot message s = Inr (s', reply))"
  proof (intro impI, elim conjE)
    assume nq: "\<not> (status0_is RPCRESPONSE_QUEUED response \<and> task response \<noteq> [])"
      and ok: "status0_is RPCRESPONSE_SUCCESS response \<longrightarrow>
             rtype response \<noteq> RPCCOMMAND_ADDCLIENTSESSION \<and>
             rtype response \<noteq> RPCCOMMAND_ADDSERVERSESSION"
    obtain s2 where "backend_switch ot command response connectionID ?s1 = Inr (s2, [])"
      using backend_switch_other_returns [OF other ok] by blast
    then have "backend_handler ot message s = Inr (s2, ?reply)"
      using nq by (auto simp: unfold)
    then show "\<exists>s' reply. backend_handler ot message s = Inr (s', reply)" by blast
  qed
  show ?thesis using P1 P2 P3 P4 by blast
qed


subsection \<open>C3: when a task association is recorded\<close>





subsection \<open>C4: CreateNym and the nym table\<close>

text \<open>
  For a response of kind CreateNym the handler calls \<open>associate_nym\<close> for every
  identifier of the response. Unless the first status is QUEUED and there is a task
  entry, it returns, and afterwards every non-empty identifier of the response has an
  association: with the connection of the request if it had none before the request,
  and the one it had otherwise. No status is tested on the way.
\<close>

lemma backend_handler_createnym_associates:
  assumes body: "1 < length (Body message)"
    and cmd: "command = DataToCommand ot (Body message ! 0)"
    and conn: "connectionID = Body message ! 1"
    and resp: "response = RPC ot command"
    and kind: "rtype response = RPCCOMMAND_CREATENYM"
    and noq: "\<not> (status0_is RPCRESPONSE_QUEUED response \<and> task response \<noteq> [])"
  shows "\<exists>s' reply. backend_handler ot message s = Inr (s', reply) \<and>
           (\<forall>nym \<in> set (identifiers response). nym \<noteq> [] \<longrightarrow>
              nym_connection_map s' nym =
                Some (case nym_connection_map s nym of None \<Rightarrow> connectionID | Some c \<Rightarrow> c))"
proof -
  let ?s1 = "associate_nyms connectionID (associatenym command) s"
  let ?s2 = "associate_nyms connectionID (identifiers response) ?s1"
  let ?reply = "AddFrame (ResponseAsData ot response) (ReplyFactory message)"
  have sw: "backend_switch ot command response connectionID ?s1 = Inr (?s2, [])"
    using kind by (simp add: backend_switch_def)
  have ret: "backend_handler ot message s = Inr (?s2, ?reply)"
    using backend_handler_unfold [OF body cmd conn resp, of s] sw noq by auto
  have "nym_connection_map ?s2 nym =
          Some (case nym_connection_map s nym of None \<Rightarrow> connectionID | Some c \<Rightarrow> c)"
    if "nym \<in> set (identifiers response)" and "nym \<noteq> []" for nym
  proof (cases "nym_connection_map s nym")
    case (Some c)
    then have "nym_connection_map ?s1 nym = Some c" by (rule associate_nyms_keeps)
    then have "nym_connection_map ?s2 nym = Some c" by (rule associate_nyms_keeps)
    then show ?thesis using Some by simp
  next
    case None
    show ?thesis
    proof (cases "nym_connection_map ?s1 nym")
      case inner: None
      then show ?thesis using that None by (simp add: associate_nyms_fresh)
    next
      case inner: (Some c)
      then have "c = connectionID"
        using associate_nyms_fresh [OF None, of connectionID "associatenym command"]
        by (simp split: if_splits)
      moreover have "nym_connection_map ?s2 nym = Some c"
        using inner by (rule associate_nyms_keeps)
      ultimately show ?thesis using None by simp
    qed
  qed
  then show ?thesis using ret by blast
qed

text \<open>
  Claim C4 says that the identifiers of a CreateNym response are associated only when
  the response reports success, and that none is associated when it does not.
  Evaluated at a CreateNym response that reports no success (its only status is
  another code) and returns the identifier \<open>N1\<close>: the handler associates \<open>N1\<close> with
  the connection \<open>C\<close> of the request. The cases AddClientSession and AddServerSession
  of the same switch test \<open>status(0)\<close> for SUCCESS; the case CreateNym does not.
\<close>

theorem backend_handler_createnym_without_success:
  "rtype (example_response RPCCOMMAND_CREATENYM [RPCRESPONSE_OTHER 3]) = RPCCOMMAND_CREATENYM \<and>
   \<not> status0_is RPCRESPONSE_SUCCESS (example_response RPCCOMMAND_CREATENYM [RPCRESPONSE_OTHER 3]) \<and>
   RPCRESPONSE_SUCCESS \<notin> set (status (example_response RPCCOMMAND_CREATENYM [RPCRESPONSE_OTHER 3])) \<and>
   nym_connection_map example_agent ''N1'' = None \<and>
   backend_handler (example_ot RPCCOMMAND_CREATENYM [RPCRESPONSE_OTHER 3])
     example_request example_agent
     = Inr (example_agent\<lparr>nym_connection_map := [''N1'' \<mapsto> ''C'']\<rparr>,
            \<lparr>Header = [''C''], Body = [''response'']\<rparr>)"
  by (simp add: backend_handler_def backend_switch_def example_ot_simps example_request_simps
        example_response_def example_command_def status0_is_def AddFrame_def ReplyFactory_def
        Let_def example_agent_def associate_nym_def)

subsection \<open>C6: the frontend handler appends the connection\<close>

text \<open>
  For every incoming frontend message whose routing header is not empty and ends with
  the sender's non-empty ConnectionId:
  \<^item> with a non-empty body, the handler forwards exactly one message to the internal
    socket, the incoming one with one more body frame at the end, equal to the last
    header frame;
  \<^item> with a body of exactly one frame, the RPCCommand, the forwarded body is the two
    frames RPCCommand, ConnectionId, so that frame 1 is the sender's ConnectionId;
  \<^item> with an empty body, the handler returns and forwards nothing.
\<close>

lemma frontend_handler_forwards:
  assumes hdr: "Header message \<noteq> []" and ident: "last (Header message) \<noteq> []"
  shows "(Body message \<noteq> [] \<longrightarrow>
            frontend_handler message s =
              Inr (s\<lparr>internal_sent := internal_sent s @
                      [message\<lparr>Body := Body message @ [last (Header message)]\<rparr>]\<rparr>)) \<and>
         (\<forall>command. Body message = [command] \<longrightarrow>
            frontend_handler message s =
              Inr (s\<lparr>internal_sent := internal_sent s @
                      [message\<lparr>Body := [command, last (Header message)]\<rparr>]\<rparr>) \<and>
            [command, last (Header message)] ! 1 = last (Header message)) \<and>
         (Body message = [] \<longrightarrow> frontend_handler message s = Inr s)"
proof -
  have "Header message ! (length (Header message) - 1) = last (Header message)"
    using hdr by (simp add: last_conv_nth)
  then show ?thesis
    using hdr ident by (auto simp: frontend_handler_def Let_def AddFrame_def)
qed

text \<open>
  Claim C6 says that for every incoming message with a non-empty body the worker sees
  the body RPCCommand, ConnectionId, with frame 1 equal to the sender's ConnectionId.
  Evaluated at a message of the connection \<open>C\<close> with the two body frames \<open>command\<close>,
  \<open>X\<close>: the handler forwards the three frames \<open>command\<close>, \<open>X\<close>, \<open>C\<close>, whose frame 1 is
  \<open>X\<close>; the worker takes \<open>X\<close> for the connection, and on a CreateNym success
  associates the new nym \<open>N1\<close> with \<open>X\<close>, not with \<open>C\<close>. The frontend handler tests
  the body for emptiness only.
\<close>

theorem frontend_handler_two_frame_body:
  "frontend_handler \<lparr>Header = [''C''], Body = [''command'', ''X'']\<rparr> example_agent
     = Inr (example_agent\<lparr>internal_sent :=
              [\<lparr>Header = [''C''], Body = [''command'', ''X'', ''C'']\<rparr>]\<rparr>) \<and>
   [''command'', ''X'', ''C''] \<noteq> [''command'', ''C''] \<and>
   [''command'', ''X'', ''C''] ! 1 \<noteq> ''C'' \<and>
   backend_handler (example_ot RPCCOMMAND_CREATENYM [RPCRESPONSE_SUCCESS])
     \<lparr>Header = [''C''], Body = [''command'', ''X'', ''C'']\<rparr> example_agent
     = Inr (example_agent\<lparr>nym_connection_map := [''N1'' \<mapsto> ''X'']\<rparr>,
            \<lparr>Header = [''C''], Body = [''response'']\<rparr>)"
  by (simp add: frontend_handler_def backend_handler_def backend_switch_def example_ot_simps
        example_response_def example_command_def status0_is_def AddFrame_def ReplyFactory_def
        Let_def example_agent_def associate_nym_def)

subsection \<open>The task table holds no empty connection, nym or task id\<close>

lemma task_table_okD:
  "task_table_ok s \<Longrightarrow> task_connection_map s t = Some (c, n) \<Longrightarrow> c \<noteq> [] \<and> n \<noteq> [] \<and> t \<noteq> []"
  unfolding task_table_ok_def by blast

lemma task_table_ok_same:
  "task_table_ok s \<Longrightarrow> task_connection_map s' = task_connection_map s \<Longrightarrow> task_table_ok s'"
  by (simp add: task_table_ok_def)

lemma task_table_ok_empty:
  "task_connection_map s = Map.empty \<Longrightarrow> task_table_ok s"
  by (simp add: task_table_ok_def)

lemma task_table_ok_remove:
  assumes ok: "task_table_ok s"
    and m: "task_connection_map s' = (task_connection_map s)(t := None)"
  shows "task_table_ok s'"
  unfolding task_table_ok_def
proof (intro allI impI)
  fix taskID connectionID nymID
  assume e: "task_connection_map s' taskID = Some (connectionID, nymID)"
  then have "task_connection_map s taskID = Some (connectionID, nymID)"
    using m by (cases "taskID = t") simp_all
  with ok show "connectionID \<noteq> [] \<and> nymID \<noteq> [] \<and> taskID \<noteq> []"
    by (rule task_table_okD)
qed

lemma task_table_ok_insert:
  assumes ok: "task_table_ok s"
    and m: "task_connection_map s' = (task_connection_map s)(t \<mapsto> (c, n))"
    and ne: "c \<noteq> []" "n \<noteq> []" "t \<noteq> []"
  shows "task_table_ok s'"
  unfolding task_table_ok_def
proof (intro allI impI)
  fix taskID connectionID nymID
  assume e: "task_connection_map s' taskID = Some (connectionID, nymID)"
  show "connectionID \<noteq> [] \<and> nymID \<noteq> [] \<and> taskID \<noteq> []"
  proof (cases "taskID = t")
    case True
    then show ?thesis using e m ne by simp
  next
    case False
    then have "task_connection_map s taskID = Some (connectionID, nymID)"
      using e m by simp
    with ok show ?thesis by (rule task_table_okD)
  qed
qed

lemma associate_task_ok:
  assumes ok: "task_table_ok s" and ret: "associate_task c n t s = Inr s'"
  shows "task_table_ok s'"
proof -
  from ret have ne: "c \<noteq> []" "n \<noteq> []" "t \<noteq> []"
    by (auto simp: associate_task_def split: if_splits)
  show ?thesis
  proof (cases "task_connection_map s t")
    case None
    then have "task_connection_map s' = (task_connection_map s)(t \<mapsto> (c, n))"
      using ret ne by (auto simp: associate_task_def)
    then show ?thesis using task_table_ok_insert [OF ok _ ne] by blast
  next
    case (Some e)
    then have "s' = s" using ret ne by (simp add: associate_task_def)
    then show ?thesis using ok by simp
  qed
qed

lemma backend_handler_returns:
  assumes ret: "backend_handler ot message s = Inr (s', reply)"
  shows "\<exists>s2 n. backend_switch ot (DataToCommand ot (Body message ! 0))
                   (RPC ot (DataToCommand ot (Body message ! 0))) (Body message ! 1)
                   (associate_nyms (Body message ! 1)
                      (associatenym (DataToCommand ot (Body message ! 0))) s) = Inr (s2, n) \<and>
                 (s' = s2 \<or>
                  associate_task (Body message ! 1) n
                    (task (RPC ot (DataToCommand ot (Body message ! 0))) ! 0) s2 = Inr s')"
proof -
  let ?command = "DataToCommand ot (Body message ! 0)"
  let ?c = "Body message ! 1"
  let ?s1 = "associate_nyms ?c (associatenym ?command) s"
  have body: "1 < length (Body message)"
    using ret by (cases "1 < length (Body message)") (simp_all add: backend_handler_def)
  show ?thesis
  proof (cases "backend_switch ot ?command (RPC ot ?command) ?c ?s1")
    case (Inl e)
    then have "backend_handler ot message s = Inl e"
      using body by (simp add: backend_handler_def Let_def)
    then show ?thesis using ret by simp
  next
    case (Inr p)
    obtain s2 n where p: "p = (s2, n)" by (cases p)
    have sw: "backend_switch ot ?command (RPC ot ?command) ?c ?s1 = Inr (s2, n)"
      using Inr p by simp
    have fin: "s' = s2 \<or> associate_task ?c n (task (RPC ot ?command) ! 0) s2 = Inr s'"
      using ret body sw
      by (simp add: backend_handler_def Let_def split: if_splits sum.splits)
    show ?thesis
      by (rule exI [of _ s2], rule exI [of _ n], rule conjI, rule sw, rule fin)
  qed
qed

lemma backend_handler_ok:
  assumes ok: "task_table_ok s" and ret: "backend_handler ot message s = Inr (s', reply)"
  shows "task_table_ok s'"
proof -
  let ?command = "DataToCommand ot (Body message ! 0)"
  let ?c = "Body message ! 1"
  let ?s1 = "associate_nyms ?c (associatenym ?command) s"
  have "\<exists>s2 n. backend_switch ot ?command (RPC ot ?command) ?c ?s1 = Inr (s2, n) \<and>
                 (s' = s2 \<or>
                  associate_task ?c n (task (RPC ot ?command) ! 0) s2 = Inr s')"
    using ret by (rule backend_handler_returns)
  then show ?thesis
  proof (elim exE conjE)
    fix s2 n
    assume sw: "backend_switch ot ?command (RPC ot ?command) ?c ?s1 = Inr (s2, n)"
      and fin: "s' = s2 \<or> associate_task ?c n (task (RPC ot ?command) ! 0) s2 = Inr s'"
    have "task_connection_map s2 = task_connection_map ?s1"
      using sw by (rule backend_switch_task_map)
    then have "task_connection_map s2 = task_connection_map s"
      by simp
    with ok have ok2: "task_table_ok s2"
      by (rule task_table_ok_same)
    from fin show ?thesis
    proof
      assume "s' = s2"
      then show ?thesis using ok2 by simp
    next
      assume "associate_task ?c n (task (RPC ot ?command) ! 0) s2 = Inr s'"
      with ok2 show ?thesis by (rule associate_task_ok)
    qed
  qed
qed

lemma send_task_push_task_map:
  assumes ret: "send_task_push ot c t n r s = Inr s'"
  shows "task_connection_map s' = task_connection_map s"
proof -
  have ne: "c \<noteq> []" "t \<noteq> []" "n \<noteq> []"
    using ret by (auto simp: send_task_push_def split: if_splits)
  have "\<exists>m. s' = s\<lparr>frontend_sent := frontend_sent s @ [m]\<rparr>"
    using ret ne
    by (auto simp: send_task_push_def instantiate_push_def Let_def split: if_splits)
  then obtain m where "s' = s\<lparr>frontend_sent := frontend_sent s @ [m]\<rparr>"
    by blast
  then show ?thesis by simp
qed

lemma process_task_push_task_map:
  assumes "process_task_push ot message s = Inr s'"
  shows "task_connection_map s' = task_connection_map s \<or>
         (\<exists>t. task_connection_map s' = (task_connection_map s)(t := None))"
proof (cases "Body message")
  case Nil
  then show ?thesis using assms by (simp add: process_task_push_def)
next
  case (Cons payload rest)
  let ?t = "tc_id (taskcomplete (DataToPush ot payload))"
  show ?thesis
  proof (cases "task_connection_map s ?t")
    case None
    then show ?thesis using assms Cons by (simp add: process_task_push_def Let_def)
  next
    case (Some e)
    obtain c n where e: "e = (c, n)" by (cases e)
    have "send_task_push ot c ?t n (tc_result (taskcomplete (DataToPush ot payload)))
            (s\<lparr>task_connection_map := (task_connection_map s)(?t := None)\<rparr>) = Inr s'"
      using assms Cons Some e by (simp add: process_task_push_def Let_def split: if_splits)
    from send_task_push_task_map [OF this]
    have "task_connection_map s' = (task_connection_map s)(?t := None)"
      by simp
    then show ?thesis by blast
  qed
qed

lemma push_handler_nym_task_map:
  assumes ret: "push_handler ot message s = Inr s'" and three: "length (Body message) \<noteq> 1"
  shows "task_connection_map s' = task_connection_map s"
proof (cases "length (Body message) = 3")
  case False
  then have "s' = s" using ret three by (simp add: push_handler_def)
  then show ?thesis by simp
next
  case True
  show ?thesis
  proof (cases "nym_connection_map s (Body message ! 0)")
    case None
    then have "s' = s" using ret True by (simp add: push_handler_def Let_def)
    then show ?thesis by simp
  next
    case (Some connection)
    then have "s' = s\<lparr>frontend_sent := frontend_sent s @
        [AddFrame (Body message ! 2)
           (AddFrame (Body message ! 1) \<lparr>Header = [connection], Body = [''PUSH'']\<rparr>)]\<rparr>"
      using ret True
      by (simp add: push_handler_def instantiate_push_def Let_def split: if_splits)
    then show ?thesis by simp
  qed
qed

lemma push_handler_ok:
  assumes ok: "task_table_ok s" and ret: "push_handler ot message s = Inr s'"
  shows "task_table_ok s'"
proof (cases "length (Body message) = 1")
  case True
  then have "process_task_push ot message s = Inr s'"
    using ret by (simp add: push_handler_def)
  from process_task_push_task_map [OF this] show ?thesis
  proof
    assume "task_connection_map s' = task_connection_map s"
    with ok show ?thesis by (rule task_table_ok_same)
  next
    assume "\<exists>t. task_connection_map s' = (task_connection_map s)(t := None)"
    then obtain t where "task_connection_map s' = (task_connection_map s)(t := None)"
      by blast
    with ok show ?thesis by (rule task_table_ok_remove)
  qed
next
  case False
  with ret have "task_connection_map s' = task_connection_map s"
    by (rule push_handler_nym_task_map)
  with ok show ?thesis by (rule task_table_ok_same)
qed

lemma frontend_handler_ok:
  assumes ok: "task_table_ok s" and ret: "frontend_handler message s = Inr s'"
  shows "task_table_ok s'"
proof -
  have "task_connection_map s' = task_connection_map s"
  proof (cases "Body message = []")
    case True
    then show ?thesis using ret by (simp add: frontend_handler_def Let_def split: if_splits)
  next
    case False
    then have "s' = s\<lparr>internal_sent := internal_sent s @
         [AddFrame (Header message ! (length (Header message) - 1)) message]\<rparr>"
      using ret by (simp add: frontend_handler_def Let_def split: if_splits)
    then show ?thesis by simp
  qed
  with ok show ?thesis by (rule task_table_ok_same)
qed

subsection \<open>C5: task-completion pushes\<close>




end
